theory Spec2Isabelle
  imports Complex_Main "HOL-Library.Sublist"
begin

section \<open>Version resolution (supply.go)\<close>


text \<open>\<^verbatim>\<open>libbuildpack.Dependency{Name, Version}\<close>.\<close>

record Dependency =
  Name :: string
  Version :: string

text \<open>
  The part of \<^verbatim>\<open>Supplier\<close> that version resolution reads: the \<^verbatim>\<open>VersionLines\<close> table
  loaded from the manifest and the \<^verbatim>\<open>Manifest.AllDependencyVersions\<close> capability.
\<close>

record Supplier =
  VersionLines :: "string \<rightharpoonup> string"
  AllDependencyVersions :: "string \<Rightarrow> string list"

text \<open>
  The errors \<^verbatim>\<open>findMatchingVersion\<close> returns: its own
  (\<^verbatim>\<open>Could not find mainline version line in buildpack manifest to default to\<close>),
  or the library's error handed on unchanged.
\<close>

datatype 'e resolution_error = NoMainlineAlias | MatchError 'e

text \<open>
  Lines 223 to 231 of \<^verbatim>\<open>findMatchingVersion\<close>: the constraint that is handed
  to the library. An empty request is replaced by the \<^verbatim>\<open>mainline\<close> line, a request that
  is a key of the table by the value bound to it, anything else is kept.
\<close>

definition effectiveVersion :: "Supplier \<Rightarrow> string \<Rightarrow> 'e resolution_error + string" where
  "effectiveVersion s version =
     (if version = [] then
        (case VersionLines s ''mainline'' of
           Some val \<Rightarrow> Inr val
         | None \<Rightarrow> Inl NoMainlineAlias)
      else
        (case VersionLines s version of
           Some val \<Rightarrow> Inr val
         | None \<Rightarrow> Inr version))"

text \<open>
  \<^verbatim>\<open>findMatchingVersion\<close>. The library function \<^verbatim>\<open>libbuildpack.FindMatchingVersion\<close> is the
  parameter \<open>fmv\<close>: it takes the constraint and the versions and returns an error or a
  version.
\<close>

definition findMatchingVersion ::
  "(string \<Rightarrow> string list \<Rightarrow> 'e + string) \<Rightarrow> Supplier \<Rightarrow> string \<Rightarrow> string
     \<Rightarrow> 'e resolution_error + Dependency" where
  "findMatchingVersion fmv s depName version =
     (case effectiveVersion s version of
        Inl e \<Rightarrow> Inl e
      | Inr version' \<Rightarrow>
          (case fmv version' (AllDependencyVersions s depName) of
             Inl err \<Rightarrow> Inl (MatchError err)
           | Inr ver \<Rightarrow> Inr \<lparr>Name = depName, Version = ver\<rparr>))"


datatype match_error = NoMatchingVersion

text \<open>
  Modelled from the spec: \<^verbatim>\<open>libbuildpack.FindMatchingVersion\<close> is vendored library code
  that is not among the source files. The spec (4.1, step 3) says: treat the string as
  a version constraint and find the highest version in the available versions
  satisfying it; if no version in the set satisfies the constraint, fail with
  \<^verbatim>\<open>NoMatchingVersion\<close>. Semantic-version matching and the order of versions are the
  parameters \<open>satisfies\<close> (constraint, then version) and \<open>newer\<close> (\<open>newer a b\<close>: \<open>a\<close> is
  the higher version).
\<close>

definition FindMatchingVersion ::
  "(string \<Rightarrow> string \<Rightarrow> bool) \<Rightarrow> (string \<Rightarrow> string \<Rightarrow> bool) \<Rightarrow> string \<Rightarrow> string list
     \<Rightarrow> match_error + string" where
  "FindMatchingVersion satisfies newer constraint versions =
     (case filter (satisfies constraint) versions of
        [] \<Rightarrow> Inl NoMatchingVersion
      | m # ms \<Rightarrow> Inr (foldl (\<lambda>best v. if newer v best then v else best) m ms))"

section \<open>Paths and files\<close>

text \<open>
  \<^verbatim>\<open>filepath.Join\<close> on a system whose separator is the slash: the elements from the first
  non-empty one on are joined with the separator and the result is cleaned; with no
  non-empty element the result is empty. \<^verbatim>\<open>filepath.Clean\<close> drops empty and \<^verbatim>\<open>.\<close>
  elements, lets a \<^verbatim>\<open>..\<close> element cancel the element before it (at the root it is
  dropped, at the start of a relative path it stays), and returns \<^verbatim>\<open>.\<close> for an empty
  result.
\<close>

fun split_sep :: "string \<Rightarrow> string list" where
  "split_sep [] = [[]]"
| "split_sep (c # cs) =
     (if c = CHR ''/'' then [] # split_sep cs
      else (case split_sep cs of x # xs \<Rightarrow> (c # x) # xs | [] \<Rightarrow> [[c]]))"

fun join_sep :: "string list \<Rightarrow> string" where
  "join_sep [] = []"
| "join_sep [e] = e"
| "join_sep (e # es) = e @ ''/'' @ join_sep es"

definition clean_step :: "bool \<Rightarrow> string list \<Rightarrow> string \<Rightarrow> string list" where
  "clean_step rooted st elem =
     (if elem = [] \<or> elem = ''.'' then st
      else if elem = ''..'' then
        (case st of
           e # rest \<Rightarrow> if e = ''..'' then elem # st else rest
         | [] \<Rightarrow> if rooted then [] else [elem])
      else elem # st)"

definition Clean :: "string \<Rightarrow> string" where
  "Clean path =
     (let rooted = (case path of c # _ \<Rightarrow> c = CHR ''/'' | [] \<Rightarrow> False);
          st = foldl (clean_step rooted) [] (split_sep path);
          out = (if rooted then ''/'' else []) @ join_sep (rev st)
      in if out = [] then ''.'' else out)"

definition Join :: "string list \<Rightarrow> string" where
  "Join elem =
     (case dropWhile (\<lambda>e. e = []) elem of
        [] \<Rightarrow> []
      | es \<Rightarrow> Clean (join_sep es))"

text \<open>
  The file system as both programs see it: a path is bound to a directory or to a
  regular file with its content and whether it may be opened for writing. Other
  permissions and failures of \<^verbatim>\<open>stat\<close> other than absence are outside this model.
\<close>

datatype entry = Dir | File bool string

type_synonym filesystem = "string \<rightharpoonup> entry"

datatype io_error = IOError string

text \<open>\<^verbatim>\<open>ioutil.ReadFile\<close>: the content of a regular file, an error otherwise.\<close>

definition ReadFile :: "filesystem \<Rightarrow> string \<Rightarrow> io_error + string" where
  "ReadFile fs p = (case fs p of Some (File w c) \<Rightarrow> Inr c | _ \<Rightarrow> Inl (IOError p))"

text \<open>
  \<^verbatim>\<open>os.Create\<close>: the named file is created, or truncated when it exists; it fails on a
  directory and on a file that may not be written.
\<close>

definition Create :: "filesystem \<Rightarrow> string \<Rightarrow> io_error + filesystem" where
  "Create fs p =
     (case fs p of
        Some Dir \<Rightarrow> Inl (IOError p)
      | Some (File w c) \<Rightarrow> if w then Inr (fs(p \<mapsto> File True [])) else Inl (IOError p)
      | None \<Rightarrow> Inr (fs(p \<mapsto> File True [])))"

text \<open>
  \<^verbatim>\<open>libbuildpack.FileExists\<close> (\<^verbatim>\<open>os.Stat\<close>, absence is \<^verbatim>\<open>false\<close> without an error).
\<close>

definition FileExists :: "filesystem \<Rightarrow> string \<Rightarrow> io_error + bool" where
  "FileExists fs p = Inr (fs p \<noteq> None)"

text \<open>\<^verbatim>\<open>os.RemoveAll\<close>: the path and everything below it is gone.\<close>

definition RemoveAll :: "string \<Rightarrow> filesystem \<Rightarrow> filesystem" where
  "RemoveAll p fs = (\<lambda>q. if q = p \<or> prefix (p @ ''/'') q then None else fs q)"

section \<open>Service bindings (varify.go)\<close>

text \<open>
  A JSON document as \<^verbatim>\<open>encoding/json\<close> scans it: the members of an object in the order
  of the text, repeated keys included.
\<close>

datatype json =
    JNull
  | JBool bool
  | JNumber real
  | JString string
  | JArray "json list"
  | JObject "(string \<times> json) list"

text \<open>
  The values \<^verbatim>\<open>encoding/json\<close> stores in an \<^verbatim>\<open>interface{}\<close>: \<^verbatim>\<open>nil\<close>, \<^verbatim>\<open>bool\<close>,
  \<^verbatim>\<open>float64\<close>, \<^verbatim>\<open>string\<close>, \<^verbatim>\<open>[]interface{}\<close> and \<^verbatim>\<open>map[string]interface{}\<close>.
\<close>

datatype goval =
    VNil
  | VBool bool
  | VFloat64 real
  | VString string
  | VSlice "goval list"
  | VMap "string \<Rightarrow> goval option"

text \<open>Decoding into an \<^verbatim>\<open>interface{}\<close>; of a repeated key the last member stays.\<close>

primrec valueInterface :: "json \<Rightarrow> goval" where
  "valueInterface JNull = VNil"
| "valueInterface (JBool b) = VBool b"
| "valueInterface (JNumber r) = VFloat64 r"
| "valueInterface (JString s) = VString s"
| "valueInterface (JArray xs) = VSlice (map valueInterface xs)"
| "valueInterface (JObject ms) = VMap (map_of (rev (map (map_prod id valueInterface) ms)))"

text \<open>
  Decoding one member of the top-level object into a \<^verbatim>\<open>[]interface{}\<close>: an array gives
  its elements, \<^verbatim>\<open>null\<close> the nil slice; any other value does not fit the type, the
  slice stays nil and the decoder records a type error (the flag) and goes on.
\<close>

fun sliceValue :: "json \<Rightarrow> goval list \<times> bool" where
  "sliceValue (JArray xs) = (map valueInterface xs, False)"
| "sliceValue JNull = ([], False)"
| "sliceValue _ = ([], True)"

datatype unmarshal_error = JSONSyntaxError | UnmarshalTypeError

text \<open>
  \<^verbatim>\<open>json.Unmarshal([]byte(vcapservices), &services)\<close> with
  \<^verbatim>\<open>services map[string][]interface{}\<close>, initially nil. The grammar of JSON text is
  not modelled: the argument is the document the scanner reads from the bytes, \<open>None\<close>
  when the bytes are not well-formed JSON (the empty string of an unset or empty
  variable is not). Then nothing is stored. A top-level value other than an object is
  a type error (\<^verbatim>\<open>null\<close> is none) and nothing is stored either. Of an object, every
  member is stored; a member that is not an array is stored as a nil slice and the
  call returns the type error after decoding the rest. A nil map and a nil slice read
  like empty ones. Numbers are taken to fit a \<^verbatim>\<open>float64\<close>; for one that does not, the
  decoder records a type error as well, which this model does not report.
\<close>

fun Unmarshal :: "json option \<Rightarrow> (string \<rightharpoonup> goval list) \<times> unmarshal_error option" where
  "Unmarshal None = (Map.empty, Some JSONSyntaxError)"
| "Unmarshal (Some (JObject ms)) =
     (map_of (rev (map (map_prod id (\<lambda>v. fst (sliceValue v))) ms)),
      if list_ex (\<lambda>m. snd (sliceValue (snd m))) ms then Some UnmarshalTypeError else None)"
| "Unmarshal (Some JNull) = (Map.empty, None)"
| "Unmarshal (Some _) = (Map.empty, Some UnmarshalTypeError)"

text \<open>
  The run-time panics of \<^verbatim>\<open>getServiceProperty\<close>: an index past the end of \<^verbatim>\<open>args\<close>, and a
  type assertion \<^verbatim>\<open>x.(T)\<close> on a value that is not a \<^verbatim>\<open>T\<close> (a missing key reads as \<^verbatim>\<open>nil\<close>,
  which is no \<^verbatim>\<open>T\<close>).
\<close>

datatype panic = IndexOutOfRange | InterfaceConversion

text \<open>The \<^verbatim>\<open>for\<close> loop of \<^verbatim>\<open>getServiceProperty\<close> over \<^verbatim>\<open>services[serviceType]\<close>.\<close>

fun getServiceProperty_loop :: "string list \<Rightarrow> goval list \<Rightarrow> panic + string" where
  "getServiceProperty_loop args [] = Inr []"
| "getServiceProperty_loop args (b # bs) =
     (case b of
        VMap svc \<Rightarrow>
          (case svc ''name'' of
             Some (VString name) \<Rightarrow>
               if args ! 1 = name then
                 if length args = 3 then
                   (case svc (args ! 2) of
                      Some (VString prop) \<Rightarrow> Inr prop
                    | _ \<Rightarrow> Inl InterfaceConversion)
                 else if length args = 4 then
                   (case svc (args ! 2) of
                      Some (VMap prop) \<Rightarrow>
                        (case prop (args ! 3) of
                           Some (VString sub) \<Rightarrow> Inr sub
                         | _ \<Rightarrow> Inl InterfaceConversion)
                    | _ \<Rightarrow> Inl InterfaceConversion)
                 else getServiceProperty_loop args bs
               else getServiceProperty_loop args bs
           | _ \<Rightarrow> Inl InterfaceConversion)
      | _ \<Rightarrow> Inl InterfaceConversion)"

text \<open>
  \<^verbatim>\<open>getServiceProperty\<close>. Its first argument is what the scanner reads from the value of
  \<^verbatim>\<open>VCAP_SERVICES\<close>. The error of \<^verbatim>\<open>json.Unmarshal\<close> is dropped, as in the source.
\<close>

definition getServiceProperty :: "json option \<Rightarrow> string list \<Rightarrow> panic + string" where
  "getServiceProperty vcapservices args =
     (if length args < 3 then Inl IndexOutOfRange
      else
        (let serviceType = args ! 0;
             services = fst (Unmarshal vcapservices)
         in getServiceProperty_loop args
              (case services serviceType of Some bs \<Rightarrow> bs | None \<Rightarrow> [])))"

text \<open>
  The name of a binding as the loop reads it: the binding is a map whose \<^verbatim>\<open>name\<close> is a
  string.
\<close>

definition binding_name :: "goval \<Rightarrow> string option" where
  "binding_name b =
     (case b of
        VMap svc \<Rightarrow> (case svc ''name'' of Some (VString name) \<Rightarrow> Some name | _ \<Rightarrow> None)
      | _ \<Rightarrow> None)"

section \<open>The rendering tool (varify.go)\<close>

text \<open>
  The process environment, and the document the JSON scanner reads from the value of
  \<^verbatim>\<open>VCAP_SERVICES\<close> (\<open>None\<close> when the variable is unset, empty or not well-formed JSON).
  \<^verbatim>\<open>os.Getenv\<close> returns the empty string for a variable that is not set.
\<close>

record Environment =
  vars :: "string \<rightharpoonup> string"
  vcap_services :: "json option"

definition Getenv :: "Environment \<Rightarrow> string \<Rightarrow> string" where
  "Getenv e k = (case vars e k of Some v \<Rightarrow> v | None \<Rightarrow> [])"

text \<open>
  Why a call of a template function fails: the number of arguments does not fit the
  function, or the function panics (the template package turns the panic into the
  error of the call).
\<close>

datatype call_error = WrongNumberOfArgs | Panicked panic

text \<open>
  \<^verbatim>\<open>funcMap\<close>: the four functions by name. \<^verbatim>\<open>env\<close> is \<^verbatim>\<open>os.Getenv\<close>, \<^verbatim>\<open>port\<close> takes no
  argument, \<^verbatim>\<open>module\<close> takes one, \<^verbatim>\<open>svcprop\<close> is variadic.
\<close>

definition funcMap :: "Environment \<Rightarrow> string \<rightharpoonup> (string list \<Rightarrow> call_error + string)" where
  "funcMap e =
     [''env'' \<mapsto> (\<lambda>args. case args of [k] \<Rightarrow> Inr (Getenv e k) | _ \<Rightarrow> Inl WrongNumberOfArgs),
      ''port'' \<mapsto> (\<lambda>args. case args of [] \<Rightarrow> Inr (Getenv e ''PORT'') | _ \<Rightarrow> Inl WrongNumberOfArgs),
      ''module'' \<mapsto> (\<lambda>args. case args of
          [name] \<Rightarrow> Inr (''load_module '' @ Join [Getenv e ''NGINX_MODULES'', name] @ ''.so;'')
        | _ \<Rightarrow> Inl WrongNumberOfArgs),
      ''svcprop'' \<mapsto> (\<lambda>args. case getServiceProperty (vcap_services e) args of
          Inl p \<Rightarrow> Inl (Panicked p)
        | Inr v \<Rightarrow> Inr v)]"

text \<open>
  The package is \<^verbatim>\<open>html/template\<close>: the value of every action is escaped for the
  place in the HTML document where the action stands before it is written. In text
  (outside tags, scripts and styles) that is the package's HTML escaper, which
  replaces seven characters and keeps every other byte.
\<close>

definition htmlReplacementTable :: "char \<Rightarrow> string option" where
  "htmlReplacementTable c =
     (if c = CHR 0x00 then Some [CHR 0xEF, CHR 0xBF, CHR 0xBD]
      else if c = CHR 0x22 then Some ''&#34;''
      else if c = CHR ''&'' then Some ''&amp;''
      else if c = CHR 0x27 then Some ''&#39;''
      else if c = CHR ''+'' then Some ''&#43;''
      else if c = CHR ''<'' then Some ''&lt;''
      else if c = CHR ''>'' then Some ''&gt;''
      else None)"

definition htmlEscaper :: "string \<Rightarrow> string" where
  "htmlEscaper s =
     concat (map (\<lambda>c. case htmlReplacementTable c of Some r \<Rightarrow> r | None \<Rightarrow> [c]) s)"

text \<open>
  A parsed template, for the part of the language the four directives need: literal
  text, and actions that call a function on string constants. The literal text is
  taken to hold no HTML markup (no \<^verbatim>\<open><\<close> in particular), so that every action stands in
  text and the package writes the literal text as it is; a template with markup in its
  literal text is outside this model.
\<close>

datatype node = TextNode string | ActionNode string "string list"

datatype exec_error = FunctionNotDefined string | CallFailed string call_error

text \<open>
  \<^verbatim>\<open>t.Execute(fileHandle, nil)\<close>: the nodes are written in order; the first failing call
  ends the execution. The result is what has been written to the file by then, and the
  error.
\<close>

fun Execute :: "(string \<rightharpoonup> (string list \<Rightarrow> call_error + string)) \<Rightarrow> node list
    \<Rightarrow> string \<times> exec_error option" where
  "Execute funcs [] = ([], None)"
| "Execute funcs (TextNode text # ns) =
     (case Execute funcs ns of (out, err) \<Rightarrow> (text @ out, err))"
| "Execute funcs (ActionNode name args # ns) =
     (case funcs name of
        None \<Rightarrow> ([], Some (FunctionNotDefined name))
      | Some f \<Rightarrow>
          (case f args of
             Inl e \<Rightarrow> ([], Some (CallFailed name e))
           | Inr v \<Rightarrow> (case Execute funcs ns of (out, err) \<Rightarrow> (htmlEscaper v @ out, err))))"

text \<open>
  How \<^verbatim>\<open>main\<close> ends: it returns, or \<^verbatim>\<open>log.Fatalf\<close> ends the process (one constructor for
  each call in the source), or indexing \<^verbatim>\<open>os.Args\<close> panics.
\<close>

datatype 'p fatal =
    CouldNotRead io_error
  | CouldNotOpen io_error
  | CouldNotParse 'p
  | CouldNotWrite exec_error
  | ArgsPanic panic

text \<open>
  \<^verbatim>\<open>main\<close>. The grammar of the template language is not modelled: \<open>Parse\<close> stands for
  \<^verbatim>\<open>template.New("conf").Funcs(funcMap).Parse\<close> and returns the parse error or the nodes.
  The result is the error the process died of, if any, and the file system it leaves.
\<close>

definition main :: "(string \<Rightarrow> 'p + node list) \<Rightarrow> Environment \<Rightarrow> string list \<Rightarrow> filesystem
    \<Rightarrow> 'p fatal option \<times> filesystem" where
  "main Parse e Args fs =
     (if length Args < 2 then (Some (ArgsPanic IndexOutOfRange), fs)
      else
        (let filename = Args ! 1 in
         case ReadFile fs filename of
           Inl err \<Rightarrow> (Some (CouldNotRead err), fs)
         | Inr body \<Rightarrow>
             (case Create fs filename of
                Inl err \<Rightarrow> (Some (CouldNotOpen err), fs)
              | Inr fs' \<Rightarrow>
                  (case Parse body of
                     Inl err \<Rightarrow> (Some (CouldNotParse err), fs')
                   | Inr t \<Rightarrow>
                       (case Execute (funcMap e) t of
                          (out, err) \<Rightarrow>
                            (map_option CouldNotWrite err, fs'(filename \<mapsto> File True out)))))))"

section \<open>Validation of nginx.conf (supply.go)\<close>

text \<open>The two methods of \<^verbatim>\<open>Stager\<close> that validation calls.\<close>

record Stager =
  BuildDir :: string
  DepDir :: string

text \<open>
  The fields of \<^verbatim>\<open>exec.Cmd\<close> that the source sets (both output streams are discarded).
  \<^verbatim>\<open>exec.Command(name, arg...)\<close> sets the path to the name and the arguments to the name
  followed by the given arguments.
\<close>

record Cmd =
  cmd_Path :: string
  cmd_Args :: "string list"
  cmd_Dir :: string
  cmd_Env :: "string list"

text \<open>
  The \<^verbatim>\<open>Command\<close> capability: \<^verbatim>\<open>Run\<close> starts the prepared command, \<^verbatim>\<open>Execute\<close> runs a
  program with arguments in a directory and captures its error stream. What the
  programs do is not fixed: each returns its error, if any, and the file system it
  leaves; \<^verbatim>\<open>Execute\<close> also returns the text of the error stream.
\<close>

record Command =
  Command_Run :: "Cmd \<Rightarrow> filesystem \<Rightarrow> string option \<times> filesystem"
  Command_Execute ::
    "string \<Rightarrow> string \<Rightarrow> string list \<Rightarrow> filesystem \<Rightarrow> (string option \<times> string) \<times> filesystem"

text \<open>
  What the validator takes from the operating system and from libbuildpack's file
  helpers: \<^verbatim>\<open>ioutil.TempDir\<close> fails or chooses the path of the directory it creates,
  \<^verbatim>\<open>libbuildpack.CopyDirectory\<close> copies a tree and may fail part of the way, and
  \<^verbatim>\<open>os.Environ\<close> is the environment of the process.
\<close>

record Host =
  TempDir :: "string \<Rightarrow> string \<Rightarrow> filesystem \<Rightarrow> io_error + string"
  CopyDirectory :: "string \<Rightarrow> string \<Rightarrow> filesystem \<Rightarrow> io_error option \<times> filesystem"
  Environ :: "string list"

text \<open>The calls that reach outside the process, in the order they are made.\<close>

datatype call =
    TempDirCall string string
  | CopyDirectoryCall string string
  | RunCall Cmd
  | ExecuteCall string string "string list"
  | RemoveAllCall string

text \<open>
  The state validation runs in: the file system, the calls made so far, and the lines
  written to the log and to the error stream.
\<close>

record World =
  files :: filesystem
  calls :: "call list"
  logged :: "string list"

text \<open>
  The errors of validation. \<open>NotFound\<close> is \<^verbatim>\<open>errors.New("no nginx")\<close>,
  \<open>NoPortPlaceholder\<close> is \<^verbatim>\<open>errors.New("no {{port}} in nginx.conf")\<close>, \<open>ConfSyntaxError\<close>
  is \<^verbatim>\<open>nginx.conf contains syntax errors: ...\<close>; \<open>VarifyFailed\<close> is the error of
  \<^verbatim>\<open>Command.Run\<close> returned as it is, \<open>IOFailed\<close> the error of a file operation
  returned as it is.
\<close>

datatype validation_error =
    NotFound
  | NoPortPlaceholder
  | IOFailed io_error
  | TempDirFailed io_error
  | CopyFailed io_error
  | VarifyFailed string
  | ConfSyntaxError string

text \<open>
  \<^verbatim>\<open>regexp.Match("{{port}}", conf)\<close>: in Go's regular expressions a brace that does not
  open a repetition count stands for itself, so the pattern compiles (the error branch
  of the source is never taken) and matches exactly the texts that contain the eight
  characters.
\<close>

fun contains :: "string \<Rightarrow> string \<Rightarrow> bool" where
  "contains pat [] = (pat = [])"
| "contains pat (c # cs) = (prefix pat (c # cs) \<or> contains pat cs)"

definition validateNginxConfExists :: "Stager \<Rightarrow> World \<Rightarrow> validation_error option \<times> World" where
  "validateNginxConfExists st w =
     (case FileExists (files w) (Join [BuildDir st, ''nginx.conf'']) of
        Inl err \<Rightarrow> (Some (IOFailed err), w)
      | Inr found \<Rightarrow>
          if \<not> found then
            (Some NotFound,
             w\<lparr>logged := logged w @ [''nginx.conf file must be present at the app root'']\<rparr>)
          else (None, w))"

definition validateNginxConfHasPort :: "Stager \<Rightarrow> World \<Rightarrow> validation_error option \<times> World" where
  "validateNginxConfHasPort st w =
     (case ReadFile (files w) (Join [BuildDir st, ''nginx.conf'']) of
        Inl err \<Rightarrow> (Some (IOFailed err), w)
      | Inr conf \<Rightarrow>
          if \<not> contains ''{{port}}'' conf then
            (Some NoPortPlaceholder,
             w\<lparr>logged := logged w @
                [''nginx.conf file must be configured to respect the value of `{{port}}`'']\<rparr>)
          else (None, w))"

text \<open>
  The body of \<^verbatim>\<open>validateNginxConfSyntax\<close> after the \<^verbatim>\<open>defer\<close> statement: the copy, the
  run of \<^verbatim>\<open>varify\<close> on the copied file, and the run of \<^verbatim>\<open>nginx -t\<close>.
\<close>

definition syntaxCheckBody ::
  "Stager \<Rightarrow> Command \<Rightarrow> Host \<Rightarrow> string \<Rightarrow> World \<Rightarrow> validation_error option \<times> World" where
  "syntaxCheckBody st c h tmpConfDir w =
     (case CopyDirectory h (BuildDir st) tmpConfDir (files w) of
        (Some err, fs1) \<Rightarrow>
          (Some (CopyFailed err),
           w\<lparr>files := fs1, calls := calls w @ [CopyDirectoryCall (BuildDir st) tmpConfDir]\<rparr>)
      | (None, fs1) \<Rightarrow>
          (let w1 = w\<lparr>files := fs1,
                      calls := calls w @ [CopyDirectoryCall (BuildDir st) tmpConfDir]\<rparr>;
               nginxConfPath = Join [tmpConfDir, ''nginx.conf''];
               cmd = \<lparr>cmd_Path = Join [DepDir st, ''bin'', ''varify''],
                      cmd_Args = [Join [DepDir st, ''bin'', ''varify''], nginxConfPath],
                      cmd_Dir = tmpConfDir,
                      cmd_Env = Environ h @
                        [''PORT=8080'',
                         ''NGINX_MODULES='' @ Join [DepDir st, ''nginx'', ''nginx'', ''modules'']]\<rparr>
           in case Command_Run c cmd (files w1) of
                (Some err, fs2) \<Rightarrow>
                  (Some (VarifyFailed err), w1\<lparr>files := fs2, calls := calls w1 @ [RunCall cmd]\<rparr>)
              | (None, fs2) \<Rightarrow>
                  (let w2 = w1\<lparr>files := fs2, calls := calls w1 @ [RunCall cmd]\<rparr>;
                       nginxExecDir = Join [DepDir st, ''nginx'', ''nginx'', ''sbin''];
                       prog = Join [nginxExecDir, ''nginx''];
                       args = [''-t'', ''-c'', nginxConfPath, ''-p'', tmpConfDir]
                   in case Command_Execute c tmpConfDir prog args (files w2) of
                        ((Some err, nginxErr), fs3) \<Rightarrow>
                          (Some (ConfSyntaxError err),
                           w2\<lparr>files := fs3,
                              calls := calls w2 @ [ExecuteCall tmpConfDir prog args],
                              logged := logged w2 @ [nginxErr]\<rparr>)
                      | ((None, nginxErr), fs3) \<Rightarrow>
                          (None,
                           w2\<lparr>files := fs3,
                              calls := calls w2 @ [ExecuteCall tmpConfDir prog args]\<rparr>))))"

text \<open>
  \<^verbatim>\<open>validateNginxConfSyntax\<close>. When \<^verbatim>\<open>ioutil.TempDir\<close> fails the function returns before
  the \<^verbatim>\<open>defer\<close> statement. Otherwise the directory exists, and the deferred
  \<^verbatim>\<open>os.RemoveAll(tmpConfDir)\<close> runs when the body returns, whatever it returns; the
  result of \<^verbatim>\<open>os.RemoveAll\<close> is dropped in the source, and the removal is taken to
  succeed.
\<close>

definition validateNginxConfSyntax ::
  "Stager \<Rightarrow> Command \<Rightarrow> Host \<Rightarrow> World \<Rightarrow> validation_error option \<times> World" where
  "validateNginxConfSyntax st c h w =
     (case TempDir h ''/tmp'' ''conf'' (files w) of
        Inl err \<Rightarrow> (Some (TempDirFailed err), w\<lparr>calls := calls w @ [TempDirCall ''/tmp'' ''conf'']\<rparr>)
      | Inr tmpConfDir \<Rightarrow>
          (let w0 = w\<lparr>files := (files w)(tmpConfDir \<mapsto> Dir),
                      calls := calls w @ [TempDirCall ''/tmp'' ''conf'']\<rparr>
           in case syntaxCheckBody st c h tmpConfDir w0 of
                (result, w') \<Rightarrow>
                  (result,
                   w'\<lparr>files := RemoveAll tmpConfDir (files w'),
                      calls := calls w' @ [RemoveAllCall tmpConfDir]\<rparr>)))"

definition validateNginxConf ::
  "Stager \<Rightarrow> Command \<Rightarrow> Host \<Rightarrow> World \<Rightarrow> validation_error option \<times> World" where
  "validateNginxConf st c h w =
     (case validateNginxConfExists st w of
        (Some err, w1) \<Rightarrow> (Some err, w1)
      | (None, w1) \<Rightarrow>
          (case validateNginxConfHasPort st w1 of
             (Some err, w2) \<Rightarrow> (Some err, w2)
           | (None, w2) \<Rightarrow> validateNginxConfSyntax st c h w2))"

section \<open>Properties of version resolution\<close>

lemma foldl_pick_member:
  "foldl (\<lambda>best v. if p v best then v else best) m ms \<in> set (m # ms)"
proof (induction ms arbitrary: m)
  case Nil
  show ?case by simp
next
  case (Cons a ms)
  have "foldl (\<lambda>best v. if p v best then v else best) (if p a m then a else m) ms
          \<in> set ((if p a m then a else m) # ms)"
    by (rule Cons.IH)
  then show ?case by (auto split: if_splits)
qed

lemma FindMatchingVersion_member:
  assumes "FindMatchingVersion sat newer c vs = Inr v"
  shows "v \<in> set vs \<and> sat c v"
proof -
  obtain m ms where f: "filter (sat c) vs = m # ms"
    and v: "v = foldl (\<lambda>best x. if newer x best then x else best) m ms"
    using assms by (auto simp: FindMatchingVersion_def split: list.splits)
  have "v \<in> set (m # ms)"
    unfolding v by (rule foldl_pick_member)
  then have "v \<in> set (filter (sat c) vs)"
    by (simp only: f)
  then show ?thesis by simp
qed

lemma FindMatchingVersion_none:
  "FindMatchingVersion sat newer c vs = Inl NoMatchingVersion \<longleftrightarrow> (\<forall>v \<in> set vs. \<not> sat c v)"
proof -
  have "FindMatchingVersion sat newer c vs = Inl NoMatchingVersion
          \<longleftrightarrow> filter (sat c) vs = []"
    by (simp add: FindMatchingVersion_def split: list.splits)
  then show ?thesis
    by (simp add: filter_empty_conv)
qed

text \<open>
  C3. An empty request resolves with the constraint bound to \<^verbatim>\<open>mainline\<close> and fails with
  \<open>NoMainlineAlias\<close> when the table has no such key; a non-empty request that is a key
  of the table resolves with the value bound to it. In both cases the substituted value
  goes to the library as it is: the result is the library's answer for that value, also
  when the value is itself a key of the table.
\<close>

theorem findMatchingVersion_alias_once:
  "(version = [] \<and> VersionLines s ''mainline'' = None
      \<longrightarrow> findMatchingVersion fmv s depName version = Inl NoMainlineAlias)
   \<and> (version = [] \<and> VersionLines s ''mainline'' = Some c
      \<longrightarrow> findMatchingVersion fmv s depName version =
          (case fmv c (AllDependencyVersions s depName) of
             Inl err \<Rightarrow> Inl (MatchError err)
           | Inr ver \<Rightarrow> Inr \<lparr>Name = depName, Version = ver\<rparr>))
   \<and> (version \<noteq> [] \<and> VersionLines s version = Some c
      \<longrightarrow> findMatchingVersion fmv s depName version =
          (case fmv c (AllDependencyVersions s depName) of
             Inl err \<Rightarrow> Inl (MatchError err)
           | Inr ver \<Rightarrow> Inr \<lparr>Name = depName, Version = ver\<rparr>))"
  by (simp add: findMatchingVersion_def effectiveVersion_def)

theorem findMatchingVersion_alias_once_witness:
  "findMatchingVersion (\<lambda>c vs. if c \<in> set vs then Inr c else Inl c)
     \<lparr>VersionLines = [''stable'' \<mapsto> ''1.26.1''], AllDependencyVersions = (\<lambda>_. [''1.25.3'', ''1.26.1''])\<rparr>
     ''nginx'' [] = Inl NoMainlineAlias
   \<and> findMatchingVersion (\<lambda>c vs. if c \<in> set vs then Inr c else Inl c)
     \<lparr>VersionLines = [''mainline'' \<mapsto> ''1.25.3'', ''stable'' \<mapsto> ''mainline''],
      AllDependencyVersions = (\<lambda>_. [''1.25.3'', ''1.26.1''])\<rparr>
     ''nginx'' [] = Inr \<lparr>Name = ''nginx'', Version = ''1.25.3''\<rparr>
   \<and> findMatchingVersion (\<lambda>c vs. if c \<in> set vs then Inr c else Inl c)
     \<lparr>VersionLines = [''mainline'' \<mapsto> ''1.25.3'', ''stable'' \<mapsto> ''mainline''],
      AllDependencyVersions = (\<lambda>_. [''1.25.3'', ''1.26.1''])\<rparr>
     ''nginx'' ''stable'' = Inl (MatchError ''mainline'')"
proof -
  let ?fmv = "\<lambda>c vs. if c \<in> set vs then Inr c else Inl (c :: string)"
  let ?vs = "\<lambda>_ :: string. [''1.25.3'', ''1.26.1'']"
  let ?s1 = "\<lparr>VersionLines = [''stable'' \<mapsto> ''1.26.1''], AllDependencyVersions = ?vs\<rparr>"
  let ?s2 = "\<lparr>VersionLines = [''mainline'' \<mapsto> ''1.25.3'', ''stable'' \<mapsto> ''mainline''],
             AllDependencyVersions = ?vs\<rparr>"
  have a: "findMatchingVersion ?fmv ?s1 ''nginx'' [] = Inl NoMainlineAlias"
    using findMatchingVersion_alias_once [where version = "[]" and s = ?s1 and fmv = ?fmv and depName = "''nginx''"] by simp
  have b: "findMatchingVersion ?fmv ?s2 ''nginx'' [] = Inr \<lparr>Name = ''nginx'', Version = ''1.25.3''\<rparr>"
    using findMatchingVersion_alias_once [where version = "[]" and s = ?s2 and c = "''1.25.3''" and fmv = ?fmv and depName = "''nginx''"] by simp
  have c: "findMatchingVersion ?fmv ?s2 ''nginx'' ''stable'' = Inl (MatchError ''mainline'')"
    using findMatchingVersion_alias_once [where version = "''stable''" and s = ?s2 and c = "''mainline''" and fmv = ?fmv and depName = "''nginx''"] by simp
  from a b c show ?thesis by (intro conjI)
qed

text \<open>
  C4. With the library as the spec describes it: a successful resolution returns the
  requested dependency name with a version that is a member of the available versions
  (and that satisfies the effective constraint); when no available version satisfies
  the effective constraint, resolution fails with \<open>NoMatchingVersion\<close> and returns no
  dependency.
\<close>

theorem findMatchingVersion_member_or_error:
  "(findMatchingVersion (FindMatchingVersion sat newer) s depName version = Inr d
      \<longrightarrow> Name d = depName \<and> Version d \<in> set (AllDependencyVersions s depName))
   \<and> ((effectiveVersion s version :: match_error resolution_error + string) = Inr c
        \<and> (\<forall>v \<in> set (AllDependencyVersions s depName). \<not> sat c v)
      \<longrightarrow> findMatchingVersion (FindMatchingVersion sat newer) s depName version
            = Inl (MatchError NoMatchingVersion))"
proof (intro conjI impI)
  assume ok: "findMatchingVersion (FindMatchingVersion sat newer) s depName version = Inr d"
  then obtain c' ver where
    lib: "FindMatchingVersion sat newer c' (AllDependencyVersions s depName) = Inr ver"
    and d: "d = \<lparr>Name = depName, Version = ver\<rparr>"
    by (auto simp: findMatchingVersion_def split: sum.splits)
  from FindMatchingVersion_member [OF lib] have "ver \<in> set (AllDependencyVersions s depName)"
    by simp
  with d show "Name d = depName" and "Version d \<in> set (AllDependencyVersions s depName)"
    by simp_all
next
  assume h: "(effectiveVersion s version :: match_error resolution_error + string) = Inr c
      \<and> (\<forall>v \<in> set (AllDependencyVersions s depName). \<not> sat c v)"
  then have "FindMatchingVersion sat newer c (AllDependencyVersions s depName) = Inl NoMatchingVersion"
    by (simp add: FindMatchingVersion_none)
  with h show "findMatchingVersion (FindMatchingVersion sat newer) s depName version
      = Inl (MatchError NoMatchingVersion)"
    by (simp add: findMatchingVersion_def)
qed

theorem findMatchingVersion_member_or_error_witness:
  "findMatchingVersion (FindMatchingVersion prefix (\<lambda>a b. length b < length a))
     \<lparr>VersionLines = [''mainline'' \<mapsto> ''1.25.'', ''stable'' \<mapsto> ''1.26.''],
      AllDependencyVersions = (\<lambda>_. [''1.25.0'', ''1.25.13'', ''1.26.1''])\<rparr> ''nginx'' []
     = Inr \<lparr>Name = ''nginx'', Version = ''1.25.13''\<rparr>
   \<and> ''1.25.13'' \<in> set [''1.25.0'', ''1.25.13'', ''1.26.1'']
   \<and> findMatchingVersion (FindMatchingVersion prefix (\<lambda>a b. length b < length a))
     \<lparr>VersionLines = [''mainline'' \<mapsto> ''1.25.'', ''stable'' \<mapsto> ''1.26.''],
      AllDependencyVersions = (\<lambda>_. [''1.25.0'', ''1.25.13'', ''1.26.1''])\<rparr> ''nginx'' ''1.27.''
     = Inl (MatchError NoMatchingVersion)"
proof -
  let ?newer = "\<lambda>a b :: string. length b < length a"
  let ?s = "\<lparr>VersionLines = [''mainline'' \<mapsto> ''1.25.'', ''stable'' \<mapsto> ''1.26.''],
            AllDependencyVersions = (\<lambda>_ :: string. [''1.25.0'', ''1.25.13'', ''1.26.1''])\<rparr>"
  have r: "findMatchingVersion (FindMatchingVersion prefix ?newer) ?s ''nginx'' []
      = Inr \<lparr>Name = ''nginx'', Version = ''1.25.13''\<rparr>"
    by (simp add: findMatchingVersion_def effectiveVersion_def FindMatchingVersion_def)
  have e: "(effectiveVersion ?s ''1.27.'' :: match_error resolution_error + string) = Inr ''1.27.''"
    by (simp add: effectiveVersion_def)
  have n: "\<forall>v \<in> set (AllDependencyVersions ?s ''nginx''). \<not> prefix ''1.27.'' v"
    by simp
  from findMatchingVersion_member_or_error
         [where sat = prefix and newer = ?newer and s = ?s and depName = "''nginx''"
            and version = "[]" and d = "\<lparr>Name = ''nginx'', Version = ''1.25.13''\<rparr>"] r
  have m: "''1.25.13'' \<in> set [''1.25.0'', ''1.25.13'', ''1.26.1'']"
    by simp
  from findMatchingVersion_member_or_error
         [where sat = prefix and newer = ?newer and s = ?s and depName = "''nginx''"
            and version = "''1.27.''" and c = "''1.27.''"] e n
  have f: "findMatchingVersion (FindMatchingVersion prefix ?newer) ?s ''nginx'' ''1.27.''
      = Inl (MatchError NoMatchingVersion)"
    by blast
  from r m f show ?thesis by (intro conjI)
qed




section \<open>Properties of the service-property lookup\<close>

lemma loop_skip_unmatched:
  "\<forall>b \<in> set pre. \<exists>n. binding_name b = Some n \<and> n \<noteq> args ! 1
     \<Longrightarrow> getServiceProperty_loop args (pre @ rest) = getServiceProperty_loop args rest"
proof (induction pre)
  case Nil
  show ?case by simp
next
  case (Cons b pre)
  from Cons.prems obtain n where n: "binding_name b = Some n" "n \<noteq> args ! 1"
    by auto
  from n(1) obtain svc where b: "b = VMap svc" "svc ''name'' = Some (VString n)"
    by (auto simp: binding_name_def split: goval.splits option.splits)
  have "getServiceProperty_loop args ((b # pre) @ rest) = getServiceProperty_loop args (pre @ rest)"
    using b n(2) by simp
  also have "\<dots> = getServiceProperty_loop args rest"
    using Cons.prems by (intro Cons.IH) simp
  finally show ?case .
qed

lemma map_of_map_prod:
  "map_of (map (map_prod id f) xs) k = map_option f (map_of xs k)"
  by (induction xs) auto

lemma Unmarshal_object_lookup:
  "fst (Unmarshal (Some (JObject ms))) k
     = map_option (\<lambda>v. fst (sliceValue v)) (map_of (rev ms) k)"
proof -
  have "rev (map (map_prod id (\<lambda>v. fst (sliceValue v))) ms)
          = map (map_prod id (\<lambda>v. fst (sliceValue v))) (rev ms)"
    by (simp add: rev_map)
  then show ?thesis
    by (simp add: map_of_map_prod)
qed

text \<open>
  C1 does not hold as stated: with one binding under \<^verbatim>\<open>db\<close>, named \<^verbatim>\<open>other\<close>, the
  template \<^verbatim>\<open>proxy_pass {{svcprop "db" "mydb" "uri"}};\<close> renders without an error, and
  the directive leaves the empty string in its place.
\<close>

theorem svcprop_unmatched_counterexample:
  "Execute (funcMap \<lparr>vars = Map.empty, vcap_services = Some (JObject [(''db'',
       JArray [JObject [(''name'', JString ''other''), (''uri'', JString ''postgres://h'')]])])\<rparr>)
     [TextNode ''proxy_pass '', ActionNode ''svcprop'' [''db'', ''mydb'', ''uri''], TextNode '';'']
   = (''proxy_pass ;'', None)"
  by (simp add: funcMap_def getServiceProperty_def htmlEscaper_def)

text \<open>
  C1, amended. When \<^verbatim>\<open>svcprop\<close> is called with three or more arguments and every
  binding under the given service type is a map with a string name other than the
  given service name, the function returns the empty string without an error, and the
  render goes on as if the directive were not there: an unmatched lookup is soft.
\<close>

theorem svcprop_unmatched_renders_empty:
  assumes "3 \<le> length args"
    and "vcap_services e = vcap"
    and "\<forall>b \<in> set (case fst (Unmarshal vcap) (args ! 0) of Some bs \<Rightarrow> bs | None \<Rightarrow> []).
           \<exists>n. binding_name b = Some n \<and> n \<noteq> args ! 1"
  shows "getServiceProperty vcap args = Inr []
       \<and> Execute (funcMap e) (ActionNode ''svcprop'' args # ns) = Execute (funcMap e) ns"
proof -
  let ?bs = "case fst (Unmarshal vcap) (args ! 0) of Some bs \<Rightarrow> bs | None \<Rightarrow> []"
  have "getServiceProperty_loop args (?bs @ []) = getServiceProperty_loop args []"
    using assms(3) by (rule loop_skip_unmatched)
  then have g: "getServiceProperty vcap args = Inr []"
    using assms(1) by (simp add: getServiceProperty_def)
  have "funcMap e ''svcprop'' = Some (\<lambda>args. case getServiceProperty (vcap_services e) args of
          Inl p \<Rightarrow> Inl (Panicked p) | Inr v \<Rightarrow> Inr v)"
    by (simp add: funcMap_def)
  with g assms(2)
  have "Execute (funcMap e) (ActionNode ''svcprop'' args # ns) = Execute (funcMap e) ns"
    by (simp add: htmlEscaper_def split: prod.splits)
  with g show ?thesis by simp
qed

theorem svcprop_unmatched_renders_empty_witness:
  "getServiceProperty (Some (JObject [(''db'',
       JArray [JObject [(''name'', JString ''a''), (''uri'', JString ''u1'')],
               JObject [(''name'', JString ''b''), (''uri'', JString ''u2'')]])]))
     [''db'', ''mydb'', ''uri'', ''user''] = Inr []
   \<and> Execute (funcMap \<lparr>vars = Map.empty, vcap_services = Some (JObject [(''db'',
       JArray [JObject [(''name'', JString ''a''), (''uri'', JString ''u1'')],
               JObject [(''name'', JString ''b''), (''uri'', JString ''u2'')]])])\<rparr>)
     [ActionNode ''svcprop'' [''db'', ''mydb'', ''uri'', ''user''], TextNode ''x'']
     = (''x'', None)"
proof -
  let ?doc = "Some (JObject [(''db'',
       JArray [JObject [(''name'', JString ''a''), (''uri'', JString ''u1'')],
               JObject [(''name'', JString ''b''), (''uri'', JString ''u2'')]])])"
  let ?e = "\<lparr>vars = Map.empty, vcap_services = ?doc\<rparr>"
  let ?args = "[''db'', ''mydb'', ''uri'', ''user'']"
  have len: "3 \<le> length ?args" by simp
  have env: "vcap_services ?e = ?doc" by simp
  have names: "\<forall>b \<in> set (case fst (Unmarshal ?doc) (?args ! 0) of Some bs \<Rightarrow> bs | None \<Rightarrow> []).
           \<exists>n. binding_name b = Some n \<and> n \<noteq> ?args ! 1"
    by (simp add: binding_name_def)
  from svcprop_unmatched_renders_empty [OF len env names, of "[TextNode ''x'']"]
  show ?thesis by simp
qed

text \<open>
  C6. When the bindings decoded under service type \<open>T\<close> hold a binding named \<open>N\<close>, and
  the bindings before the first such one are maps with string names (other than \<open>N\<close>),
  then \<^verbatim>\<open>svcprop(T, N, K)\<close> returns the string at key \<open>K\<close> of that first binding, and
  \<^verbatim>\<open>svcprop(T, N, K, S)\<close> returns the string at key \<open>S\<close> of the map at its key \<open>K\<close>. The
  bindings after it, same-named ones included, are not read.
\<close>

theorem svcprop_first_match:
  assumes "fst (Unmarshal vcap) T = Some (pre @ VMap svc # post)"
    and "\<forall>b \<in> set pre. \<exists>n. binding_name b = Some n \<and> n \<noteq> N"
    and "svc ''name'' = Some (VString N)"
  shows "(svc K = Some (VString p) \<longrightarrow> getServiceProperty vcap [T, N, K] = Inr p)
       \<and> (svc K = Some (VMap m) \<and> m S = Some (VString q)
            \<longrightarrow> getServiceProperty vcap [T, N, K, S] = Inr q)"
proof -
  have s3: "getServiceProperty_loop [T, N, K] (pre @ VMap svc # post)
              = getServiceProperty_loop [T, N, K] (VMap svc # post)"
    using assms(2) by (intro loop_skip_unmatched) simp
  have s4: "getServiceProperty_loop [T, N, K, S] (pre @ VMap svc # post)
              = getServiceProperty_loop [T, N, K, S] (VMap svc # post)"
    using assms(2) by (intro loop_skip_unmatched) simp
  show ?thesis
    using assms(1,3) s3 s4 by (simp add: getServiceProperty_def)
qed

theorem svcprop_first_match_witness:
  "getServiceProperty (Some (JObject [(''db'',
       JArray [JObject [(''name'', JString ''other''), (''uri'', JString ''u0'')],
               JObject [(''name'', JString ''mydb''), (''uri'', JString ''u1''),
                        (''creds'', JObject [(''user'', JString ''bob'')])],
               JObject [(''name'', JString ''mydb''), (''uri'', JString ''u2'')]])]))
     [''db'', ''mydb'', ''uri''] = Inr ''u1''
   \<and> getServiceProperty (Some (JObject [(''db'',
       JArray [JObject [(''name'', JString ''other''), (''uri'', JString ''u0'')],
               JObject [(''name'', JString ''mydb''), (''uri'', JString ''u1''),
                        (''creds'', JObject [(''user'', JString ''bob'')])],
               JObject [(''name'', JString ''mydb''), (''uri'', JString ''u2'')]])]))
     [''db'', ''mydb'', ''creds'', ''user''] = Inr ''bob''"
proof -
  let ?other = "JObject [(''name'', JString ''other''), (''uri'', JString ''u0'')]"
  let ?creds = "[(''user'', JString ''bob'')]"
  let ?mine = "[(''name'', JString ''mydb''), (''uri'', JString ''u1''), (''creds'', JObject ?creds)]"
  let ?dup = "JObject [(''name'', JString ''mydb''), (''uri'', JString ''u2'')]"
  let ?doc = "Some (JObject [(''db'', JArray [?other, JObject ?mine, ?dup])])"
  let ?svc = "map_of (rev (map (map_prod id valueInterface) ?mine))"
  let ?m = "map_of (rev (map (map_prod id valueInterface) ?creds))"
  have bs: "fst (Unmarshal ?doc) ''db''
      = Some ([valueInterface ?other] @ VMap ?svc # [valueInterface ?dup])"
    by simp
  have pre: "\<forall>b \<in> set [valueInterface ?other]. \<exists>n. binding_name b = Some n \<and> n \<noteq> ''mydb''"
    by (simp add: binding_name_def)
  have name: "?svc ''name'' = Some (VString ''mydb'')"
    by simp
  have uri: "?svc ''uri'' = Some (VString ''u1'')"
    by simp
  have creds: "?svc ''creds'' = Some (VMap ?m) \<and> ?m ''user'' = Some (VString ''bob'')"
    by simp
  from svcprop_first_match [OF bs pre name, where K = "''uri''" and p = "''u1''"] uri
  have a: "getServiceProperty ?doc [''db'', ''mydb'', ''uri''] = Inr ''u1''"
    by blast
  from svcprop_first_match [OF bs pre name, where K = "''creds''" and m = ?m
      and S = "''user''" and q = "''bob''"] creds
  have b: "getServiceProperty ?doc [''db'', ''mydb'', ''creds'', ''user''] = Inr ''bob''"
    by blast
  from a b show ?thesis by (intro conjI)
qed

text \<open>
  C10 does not hold as stated: the value below is not of the expected shape (the
  member \<^verbatim>\<open>cache\<close> is a string, not an array), \<^verbatim>\<open>json.Unmarshal\<close> returns a type error
  that is dropped, and yet the bindings under \<^verbatim>\<open>db\<close> are there: the lookup returns
  the property, and a lookup of a key the binding lacks panics.
\<close>

theorem svcprop_decode_error_counterexample:
  "snd (Unmarshal (Some (JObject [
       (''db'', JArray [JObject [(''name'', JString ''mydb''), (''uri'', JString ''postgres://h'')]]),
       (''cache'', JString ''oops'')]))) = Some UnmarshalTypeError
   \<and> getServiceProperty (Some (JObject [
       (''db'', JArray [JObject [(''name'', JString ''mydb''), (''uri'', JString ''postgres://h'')]]),
       (''cache'', JString ''oops'')])) [''db'', ''mydb'', ''uri''] = Inr ''postgres://h''
   \<and> getServiceProperty (Some (JObject [
       (''db'', JArray [JObject [(''name'', JString ''mydb''), (''uri'', JString ''postgres://h'')]]),
       (''cache'', JString ''oops'')])) [''db'', ''mydb'', ''host''] = Inl InterfaceConversion"
  by (simp add: getServiceProperty_def)

text \<open>
  C10, amended. For a call of \<^verbatim>\<open>svcprop\<close> with three or more arguments: when the value
  of \<^verbatim>\<open>VCAP_SERVICES\<close> is unset, empty or not well-formed JSON, or is JSON other than an
  object or \<^verbatim>\<open>null\<close>, decoding fails, the error is dropped and the function returns
  the empty string; when the value is an object whose member for the requested service
  type is neither an array nor \<^verbatim>\<open>null\<close>, decoding reports a type error, the error is
  dropped and the function returns the empty string; and when the value is an object
  whose member for the requested service type is an array, the elements of that array
  are searched, whether or not another member made decoding report an error.
\<close>

theorem svcprop_decode_error_ignored:
  assumes "3 \<le> length args"
  shows "((\<forall>ms. vcap \<noteq> Some (JObject ms)) \<and> vcap \<noteq> Some JNull
            \<longrightarrow> snd (Unmarshal vcap) \<noteq> None \<and> getServiceProperty vcap args = Inr [])
       \<and> (vcap = Some (JObject ms) \<and> map_of (rev ms) (args ! 0) = Some v
            \<and> (\<forall>xs. v \<noteq> JArray xs) \<and> v \<noteq> JNull
            \<longrightarrow> snd (Unmarshal vcap) = Some UnmarshalTypeError
                \<and> getServiceProperty vcap args = Inr [])
       \<and> (vcap = Some (JObject ms) \<and> map_of (rev ms) (args ! 0) = Some (JArray xs)
            \<longrightarrow> getServiceProperty vcap args
                = getServiceProperty_loop args (map valueInterface xs))"
proof (intro conjI impI)
  assume h: "(\<forall>ms. vcap \<noteq> Some (JObject ms)) \<and> vcap \<noteq> Some JNull"
  then have u: "Unmarshal vcap = (Map.empty, Some JSONSyntaxError)
      \<or> Unmarshal vcap = (Map.empty, Some UnmarshalTypeError)"
    by (cases vcap rule: Unmarshal.cases) auto
  then show "snd (Unmarshal vcap) \<noteq> None" by auto
  from u assms show "getServiceProperty vcap args = Inr []"
    by (auto simp: getServiceProperty_def)
next
  assume h: "vcap = Some (JObject ms) \<and> map_of (rev ms) (args ! 0) = Some v
            \<and> (\<forall>xs. v \<noteq> JArray xs) \<and> v \<noteq> JNull"
  then have sv: "sliceValue v = ([], True)"
    by (cases v) auto
  from h have "(args ! 0, v) \<in> set ms"
    using map_of_SomeD [of "rev ms" "args ! 0" v] by simp
  with sv have "list_ex (\<lambda>m. snd (sliceValue (snd m))) ms"
    by (force simp: list_ex_iff)
  with h show "snd (Unmarshal vcap) = Some UnmarshalTypeError" by simp
  have "fst (Unmarshal vcap) (args ! 0) = Some []"
    using h sv by (simp only: Unmarshal_object_lookup) simp
  with assms show "getServiceProperty vcap args = Inr []"
    by (simp add: getServiceProperty_def)
next
  assume h: "vcap = Some (JObject ms) \<and> map_of (rev ms) (args ! 0) = Some (JArray xs)"
  then have "fst (Unmarshal vcap) (args ! 0) = Some (map valueInterface xs)"
    by (simp only: Unmarshal_object_lookup) simp
  with assms show "getServiceProperty vcap args
      = getServiceProperty_loop args (map valueInterface xs)"
    by (simp add: getServiceProperty_def)
qed

theorem svcprop_decode_error_ignored_witness:
  "snd (Unmarshal None) \<noteq> None
   \<and> getServiceProperty None [''db'', ''mydb'', ''uri''] = Inr []
   \<and> snd (Unmarshal (Some (JArray [JString ''db'']))) \<noteq> None
   \<and> getServiceProperty (Some (JArray [JString ''db''])) [''db'', ''mydb'', ''uri''] = Inr []
   \<and> snd (Unmarshal (Some (JObject [(''db'', JString ''mydb'')]))) = Some UnmarshalTypeError
   \<and> getServiceProperty (Some (JObject [(''db'', JString ''mydb'')]))
        [''db'', ''mydb'', ''uri''] = Inr []
   \<and> getServiceProperty (Some (JObject [(''cache'', JBool True),
          (''db'', JArray [JObject [(''name'', JString ''mydb''), (''uri'', JString ''u'')]])]))
        [''db'', ''mydb'', ''uri''] = Inr ''u''"
proof -
  let ?args = "[''db'', ''mydb'', ''uri'']"
  have len: "3 \<le> length ?args" by simp
  from svcprop_decode_error_ignored [OF len, where vcap = None]
  have a: "snd (Unmarshal None) \<noteq> None \<and> getServiceProperty None ?args = Inr []"
    by simp
  from svcprop_decode_error_ignored [OF len, where vcap = "Some (JArray [JString ''db''])"]
  have b: "snd (Unmarshal (Some (JArray [JString ''db'']))) \<noteq> None
      \<and> getServiceProperty (Some (JArray [JString ''db''])) ?args = Inr []"
    by simp
  from svcprop_decode_error_ignored [OF len, where vcap = "Some (JObject [(''db'', JString ''mydb'')])"
      and ms = "[(''db'', JString ''mydb'')]" and v = "JString ''mydb''"]
  have c: "snd (Unmarshal (Some (JObject [(''db'', JString ''mydb'')]))) = Some UnmarshalTypeError
      \<and> getServiceProperty (Some (JObject [(''db'', JString ''mydb'')])) ?args = Inr []"
    by simp
  let ?ms = "[(''cache'', JBool True),
          (''db'', JArray [JObject [(''name'', JString ''mydb''), (''uri'', JString ''u'')]])]"
  from svcprop_decode_error_ignored [OF len, where vcap = "Some (JObject ?ms)" and ms = ?ms
      and xs = "[JObject [(''name'', JString ''mydb''), (''uri'', JString ''u'')]]"]
  have d: "getServiceProperty (Some (JObject ?ms)) ?args = Inr ''u''"
    by simp
  from a b c d show ?thesis by simp
qed

section \<open>Properties of the rendering tool\<close>

text \<open>
  C2 does not hold as stated, in its last part: the tool opens the file for
  writing, which truncates it, before it parses what it read. For a file holding the
  unclosed action \<^verbatim>\<open>listen {{port;\<close> the parser fails, the process ends with the parse
  error, and the file is left empty.
\<close>

theorem main_parse_failure_counterexample:
  "main (\<lambda>body. Inl ''unclosed action'')
      \<lparr>vars = [''PORT'' \<mapsto> ''8080''], vcap_services = None\<rparr>
      [''varify'', ''nginx.conf''] [''nginx.conf'' \<mapsto> File True ''listen {{port;'']
    = (Some (CouldNotParse ''unclosed action''), [''nginx.conf'' \<mapsto> File True []])"
  by (simp add: main_def ReadFile_def Create_def)

text \<open>
  C2, amended. For every template text that the parser rejects, the tool ends with the
  parse error before any directive is evaluated and writes no rendered output; by then
  it has truncated the target file, which is left empty.
\<close>

theorem main_parse_failure_truncates:
  assumes "2 \<le> length Args"
    and "fs (Args ! 1) = Some (File True body)"
    and "Parse body = Inl err"
  shows "main Parse e Args fs = (Some (CouldNotParse err), fs(Args ! 1 \<mapsto> File True []))"
  using assms by (simp add: main_def ReadFile_def Create_def)

theorem main_parse_failure_truncates_witness:
  "main (\<lambda>body. if body = ''{{end}}'' then Inl ''unexpected {{end}}'' else Inr [TextNode body])
      \<lparr>vars = Map.empty, vcap_services = None\<rparr>
      [''varify'', ''/tmp/conf1/nginx.conf'']
      [''/tmp/conf1/nginx.conf'' \<mapsto> File True ''{{end}}'', ''/tmp/conf1/mime.types'' \<mapsto> File True ''types'']
    = (Some (CouldNotParse ''unexpected {{end}}''),
       [''/tmp/conf1/nginx.conf'' \<mapsto> File True [], ''/tmp/conf1/mime.types'' \<mapsto> File True ''types''])"
proof -
  let ?Parse = "\<lambda>body. if body = ''{{end}}'' then Inl ''unexpected {{end}}'' else Inr [TextNode body]"
  let ?Args = "[''varify'', ''/tmp/conf1/nginx.conf'']"
  let ?fs = "[''/tmp/conf1/nginx.conf'' \<mapsto> File True ''{{end}}'',
              ''/tmp/conf1/mime.types'' \<mapsto> File True ''types'']"
  have len: "2 \<le> length ?Args" by simp
  have there: "?fs (?Args ! 1) = Some (File True ''{{end}}'')" by simp
  have bad: "?Parse ''{{end}}'' = Inl ''unexpected {{end}}''" by simp
  have upd: "?fs(?Args ! 1 \<mapsto> File True [])
      = [''/tmp/conf1/nginx.conf'' \<mapsto> File True [], ''/tmp/conf1/mime.types'' \<mapsto> File True ''types'']"
    by (rule ext) simp
  from main_parse_failure_truncates
         [where Args = ?Args and fs = ?fs and Parse = ?Parse and body = "''{{end}}''"
            and err = "''unexpected {{end}}''" and e = "\<lparr>vars = Map.empty, vcap_services = None\<rparr>"]
       len there bad upd
  show ?thesis by simp
qed

text \<open>
  C7. The \<^verbatim>\<open>port\<close> directive with \<^verbatim>\<open>PORT=8080\<close> renders \<^verbatim>\<open>8080\<close>, but the \<^verbatim>\<open>env\<close>
  directive does not render every value unchanged: the tool renders with
  \<^verbatim>\<open>html/template\<close>, which escapes the value for HTML. With
  \<^verbatim>\<open>UPSTREAM=http://h/?a=1&b=2\<close> the template \<^verbatim>\<open>proxy_pass {{env "UPSTREAM"}};\<close> renders
  \<^verbatim>\<open>proxy_pass http://h/?a=1&amp;b=2;\<close>.
\<close>

theorem env_directive_is_html_escaped:
  "Execute (funcMap \<lparr>vars = [''UPSTREAM'' \<mapsto> ''http://h/?a=1&b=2''], vcap_services = None\<rparr>)
     [TextNode ''proxy_pass '', ActionNode ''env'' [''UPSTREAM''], TextNode '';'']
     = (''proxy_pass http://h/?a=1&amp;b=2;'', None)
   \<and> Execute (funcMap \<lparr>vars = [''PORT'' \<mapsto> ''8080''], vcap_services = None\<rparr>)
     [TextNode ''listen '', ActionNode ''port'' [], TextNode '';'']
     = (''listen 8080;'', None)"
  by (simp add: funcMap_def Getenv_def htmlEscaper_def htmlReplacementTable_def)

section \<open>Properties of validation\<close>

text \<open>
  C8. Validation is a pipeline that stops at the first failing stage. When the file is
  absent the result is \<open>NotFound\<close>, and no call has been made and no file touched: nothing
  was rendered. When the file exists and its text, as it stands, lacks \<^verbatim>\<open>{{port}}\<close>, the
  result is \<open>NoPortPlaceholder\<close>, again without any call: neither \<^verbatim>\<open>varify\<close> nor \<^verbatim>\<open>nginx -t\<close>
  ran. When the file exists and holds the placeholder, the result is that of the
  syntax check. And whenever validation made any call at all, the file existed and
  held the placeholder: the syntax check runs only after both earlier stages passed.
\<close>

theorem validateNginxConf_short_circuits:
  assumes "validateNginxConf st c h w = (r, w')"
  shows "(files w (Join [BuildDir st, ''nginx.conf'']) = None
            \<longrightarrow> r = Some NotFound \<and> calls w' = calls w \<and> files w' = files w)
       \<and> (\<forall>wr conf. files w (Join [BuildDir st, ''nginx.conf'']) = Some (File wr conf)
              \<and> \<not> contains ''{{port}}'' conf
            \<longrightarrow> r = Some NoPortPlaceholder \<and> calls w' = calls w \<and> files w' = files w)
       \<and> (\<forall>wr conf. files w (Join [BuildDir st, ''nginx.conf'']) = Some (File wr conf)
              \<and> contains ''{{port}}'' conf
            \<longrightarrow> (r, w') = validateNginxConfSyntax st c h w)
       \<and> (calls w' \<noteq> calls w
            \<longrightarrow> (\<exists>wr conf. files w (Join [BuildDir st, ''nginx.conf'']) = Some (File wr conf)
                  \<and> contains ''{{port}}'' conf))"
proof -
  let ?p = "Join [BuildDir st, ''nginx.conf'']"
  note defs = validateNginxConf_def validateNginxConfExists_def FileExists_def
    validateNginxConfHasPort_def ReadFile_def
  have absent: "r = Some NotFound \<and> calls w' = calls w \<and> files w' = files w"
    if "files w ?p = None"
    using assms that by (auto simp: defs)
  have dir: "calls w' = calls w" if "files w ?p = Some Dir"
    using assms that by (auto simp: defs)
  have noport: "r = Some NoPortPlaceholder \<and> calls w' = calls w \<and> files w' = files w"
    if "files w ?p = Some (File wr conf)" and "\<not> contains ''{{port}}'' conf" for wr conf
    using assms that by (auto simp: defs)
  have port: "(r, w') = validateNginxConfSyntax st c h w"
    if "files w ?p = Some (File wr conf)" and "contains ''{{port}}'' conf" for wr conf
    using assms that by (auto simp: defs)
  have only: "\<exists>wr conf. files w ?p = Some (File wr conf) \<and> contains ''{{port}}'' conf"
    if ch: "calls w' \<noteq> calls w"
  proof (cases "files w ?p")
    case None
    with absent ch show ?thesis by simp
  next
    case (Some e)
    show ?thesis
    proof (cases e)
      case Dir
      with Some dir ch show ?thesis by simp
    next
      case (File wr conf)
      with Some noport [of wr conf] ch show ?thesis by auto
    qed
  qed
  from absent noport port only show ?thesis by blast
qed

theorem validateNginxConf_short_circuits_witness:
  "fst (validateNginxConf
      \<lparr>BuildDir = ''/app'', DepDir = ''/deps/0''\<rparr>
      \<lparr>Command_Run = (\<lambda>cmd fs. (None, fs)), Command_Execute = (\<lambda>d p a fs. ((None, []), fs))\<rparr>
      \<lparr>TempDir = (\<lambda>d p fs. Inr ''/tmp/conf1''),
      CopyDirectory = (\<lambda>src dst fs. (None, fs(dst @ ''/nginx.conf'' \<mapsto> File True ''listen {{port}};''))),
      Environ = []\<rparr>
      \<lparr>files = Map.empty, calls = [], logged = []\<rparr>) = Some NotFound
   \<and> calls (snd (validateNginxConf
      \<lparr>BuildDir = ''/app'', DepDir = ''/deps/0''\<rparr>
      \<lparr>Command_Run = (\<lambda>cmd fs. (None, fs)), Command_Execute = (\<lambda>d p a fs. ((None, []), fs))\<rparr>
      \<lparr>TempDir = (\<lambda>d p fs. Inr ''/tmp/conf1''),
      CopyDirectory = (\<lambda>src dst fs. (None, fs(dst @ ''/nginx.conf'' \<mapsto> File True ''listen {{port}};''))),
      Environ = []\<rparr>
      \<lparr>files = Map.empty, calls = [], logged = []\<rparr>)) = []
   \<and> fst (validateNginxConf
      \<lparr>BuildDir = ''/app'', DepDir = ''/deps/0''\<rparr>
      \<lparr>Command_Run = (\<lambda>cmd fs. (None, fs)), Command_Execute = (\<lambda>d p a fs. ((None, []), fs))\<rparr>
      \<lparr>TempDir = (\<lambda>d p fs. Inr ''/tmp/conf1''),
      CopyDirectory = (\<lambda>src dst fs. (None, fs(dst @ ''/nginx.conf'' \<mapsto> File True ''listen {{port}};''))),
      Environ = []\<rparr>
      \<lparr>files = [''/app/nginx.conf'' \<mapsto> File True ''listen 80;''], calls = [], logged = []\<rparr>) = Some NoPortPlaceholder
   \<and> calls (snd (validateNginxConf
      \<lparr>BuildDir = ''/app'', DepDir = ''/deps/0''\<rparr>
      \<lparr>Command_Run = (\<lambda>cmd fs. (None, fs)), Command_Execute = (\<lambda>d p a fs. ((None, []), fs))\<rparr>
      \<lparr>TempDir = (\<lambda>d p fs. Inr ''/tmp/conf1''),
      CopyDirectory = (\<lambda>src dst fs. (None, fs(dst @ ''/nginx.conf'' \<mapsto> File True ''listen {{port}};''))),
      Environ = []\<rparr>
      \<lparr>files = [''/app/nginx.conf'' \<mapsto> File True ''listen 80;''], calls = [], logged = []\<rparr>)) = []
   \<and> fst (validateNginxConf
      \<lparr>BuildDir = ''/app'', DepDir = ''/deps/0''\<rparr>
      \<lparr>Command_Run = (\<lambda>cmd fs. (None, fs)), Command_Execute = (\<lambda>d p a fs. ((None, []), fs))\<rparr>
      \<lparr>TempDir = (\<lambda>d p fs. Inr ''/tmp/conf1''),
      CopyDirectory = (\<lambda>src dst fs. (None, fs(dst @ ''/nginx.conf'' \<mapsto> File True ''listen {{port}};''))),
      Environ = []\<rparr>
      \<lparr>files = [''/app/nginx.conf'' \<mapsto> File True ''listen {{port}};''], calls = [], logged = []\<rparr>) = None
   \<and> calls (snd (validateNginxConf
      \<lparr>BuildDir = ''/app'', DepDir = ''/deps/0''\<rparr>
      \<lparr>Command_Run = (\<lambda>cmd fs. (None, fs)), Command_Execute = (\<lambda>d p a fs. ((None, []), fs))\<rparr>
      \<lparr>TempDir = (\<lambda>d p fs. Inr ''/tmp/conf1''),
      CopyDirectory = (\<lambda>src dst fs. (None, fs(dst @ ''/nginx.conf'' \<mapsto> File True ''listen {{port}};''))),
      Environ = []\<rparr>
      \<lparr>files = [''/app/nginx.conf'' \<mapsto> File True ''listen {{port}};''], calls = [], logged = []\<rparr>)) \<noteq> []"
proof -
  let ?st = "\<lparr>BuildDir = ''/app'', DepDir = ''/deps/0''\<rparr>"
  let ?c = "\<lparr>Command_Run = (\<lambda>cmd fs. (None, fs)), Command_Execute = (\<lambda>d p a fs. ((None, []), fs))\<rparr>"
  let ?h = "\<lparr>TempDir = (\<lambda>d p fs. Inr ''/tmp/conf1''),
      CopyDirectory = (\<lambda>src dst fs. (None, fs(dst @ ''/nginx.conf'' \<mapsto> File True ''listen {{port}};''))),
      Environ = []\<rparr>"
  let ?w0 = "\<lparr>files = Map.empty, calls = [], logged = []\<rparr>"
  let ?w1 = "\<lparr>files = [''/app/nginx.conf'' \<mapsto> File True ''listen 80;''], calls = [], logged = []\<rparr>"
  let ?w2 = "\<lparr>files = [''/app/nginx.conf'' \<mapsto> File True ''listen {{port}};''], calls = [], logged = []\<rparr>"
  have j: "Join [BuildDir ?st, ''nginx.conf''] = ''/app/nginx.conf''"
    by (simp add: Join_def Clean_def clean_step_def)
  have e0: "validateNginxConf ?st ?c ?h ?w0
      = (fst (validateNginxConf ?st ?c ?h ?w0), snd (validateNginxConf ?st ?c ?h ?w0))"
    and e1: "validateNginxConf ?st ?c ?h ?w1
      = (fst (validateNginxConf ?st ?c ?h ?w1), snd (validateNginxConf ?st ?c ?h ?w1))"
    and e2: "validateNginxConf ?st ?c ?h ?w2
      = (fst (validateNginxConf ?st ?c ?h ?w2), snd (validateNginxConf ?st ?c ?h ?w2))"
    by simp_all
  have p0: "files ?w0 (Join [BuildDir ?st, ''nginx.conf'']) = None"
    by (simp only: j) simp
  have p1: "files ?w1 (Join [BuildDir ?st, ''nginx.conf'']) = Some (File True ''listen 80;'')
      \<and> \<not> contains ''{{port}}'' ''listen 80;''"
    by (simp only: j) simp
  have p2: "files ?w2 (Join [BuildDir ?st, ''nginx.conf'']) = Some (File True ''listen {{port}};'')
      \<and> contains ''{{port}}'' ''listen {{port}};''"
    by (simp only: j) simp
  from validateNginxConf_short_circuits [OF e0, THEN conjunct1, rule_format, OF p0]
  have a: "fst (validateNginxConf ?st ?c ?h ?w0) = Some NotFound
      \<and> calls (snd (validateNginxConf ?st ?c ?h ?w0)) = []"
    by simp
  from validateNginxConf_short_circuits
         [OF e1, THEN conjunct2, THEN conjunct1, rule_format, OF p1]
  have b: "fst (validateNginxConf ?st ?c ?h ?w1) = Some NoPortPlaceholder
      \<and> calls (snd (validateNginxConf ?st ?c ?h ?w1)) = []"
    by simp
  have syn: "fst (validateNginxConfSyntax ?st ?c ?h ?w2) = None
      \<and> calls (snd (validateNginxConfSyntax ?st ?c ?h ?w2)) \<noteq> []"
    by (simp add: validateNginxConfSyntax_def syntaxCheckBody_def Let_def)
  from validateNginxConf_short_circuits
         [OF e2, THEN conjunct2, THEN conjunct2, THEN conjunct1, rule_format, OF p2]
  have eq: "validateNginxConf ?st ?c ?h ?w2 = validateNginxConfSyntax ?st ?c ?h ?w2"
    by (simp only: prod.collapse)
  have c: "fst (validateNginxConf ?st ?c ?h ?w2) = None
      \<and> calls (snd (validateNginxConf ?st ?c ?h ?w2)) \<noteq> []"
    unfolding eq by (rule syn)
  from a b c show ?thesis by (intro conjI) (erule conjunct1 conjunct2)+
qed

text \<open>
  C9. Once \<^verbatim>\<open>ioutil.TempDir\<close> has returned the directory, the syntax check removes it
  before it returns, whatever the copy, \<^verbatim>\<open>varify\<close> and \<^verbatim>\<open>nginx -t\<close> did and returned:
  the result is success or the failure of the copy, of the render or of the syntax
  test, and in the file system the stage leaves, neither the directory nor anything
  below it exists; the removal is the last call the stage makes.
\<close>

theorem validateNginxConfSyntax_removes_tmp:
  assumes "TempDir h ''/tmp'' ''conf'' (files w) = Inr tmp"
    and "validateNginxConfSyntax st c h w = (r, w')"
  shows "files w' tmp = None
       \<and> (\<forall>q. prefix (tmp @ ''/'') q \<longrightarrow> files w' q = None)
       \<and> last (calls w') = RemoveAllCall tmp
       \<and> (r = None \<or> (\<exists>e. r = Some (CopyFailed e)) \<or> (\<exists>e. r = Some (VarifyFailed e))
            \<or> (\<exists>e. r = Some (ConfSyntaxError e)))"
proof -
  let ?w0 = "w\<lparr>files := (files w)(tmp \<mapsto> Dir), calls := calls w @ [TempDirCall ''/tmp'' ''conf'']\<rparr>"
  obtain r0 w1 where body: "syntaxCheckBody st c h tmp ?w0 = (r0, w1)"
    by (cases "syntaxCheckBody st c h tmp ?w0") auto
  with assms have r: "r = r0"
    and w': "w' = w1\<lparr>files := RemoveAll tmp (files w1), calls := calls w1 @ [RemoveAllCall tmp]\<rparr>"
    by (simp_all add: validateNginxConfSyntax_def)
  have gone: "files w' tmp = None"
    and below: "\<forall>q. prefix (tmp @ ''/'') q \<longrightarrow> files w' q = None"
    and final: "last (calls w') = RemoveAllCall tmp"
    unfolding w' by (simp_all add: RemoveAll_def)
  have "r0 = None \<or> (\<exists>e. r0 = Some (CopyFailed e)) \<or> (\<exists>e. r0 = Some (VarifyFailed e))
            \<or> (\<exists>e. r0 = Some (ConfSyntaxError e))"
    using body by (auto simp: syntaxCheckBody_def Let_def split: prod.splits option.splits)
  with r gone below final show ?thesis by simp
qed

theorem validateNginxConfSyntax_removes_tmp_witness:
  "fst (validateNginxConfSyntax
      \<lparr>BuildDir = ''/app'', DepDir = ''/deps/0''\<rparr>
      \<lparr>Command_Run = (\<lambda>cmd fs. (None, fs)), Command_Execute = (\<lambda>d p a fs. ((None, []), fs))\<rparr>
      \<lparr>TempDir = (\<lambda>d p fs. Inr ''/tmp/conf1''),
      CopyDirectory = (\<lambda>src dst fs. (None, fs(dst @ ''/nginx.conf'' \<mapsto> File True ''listen {{port}};''))),
      Environ = []\<rparr>
      \<lparr>files = [''/app/nginx.conf'' \<mapsto> File True ''listen {{port}};''], calls = [], logged = []\<rparr>) = None
   \<and> files (snd (validateNginxConfSyntax
      \<lparr>BuildDir = ''/app'', DepDir = ''/deps/0''\<rparr>
      \<lparr>Command_Run = (\<lambda>cmd fs. (None, fs)), Command_Execute = (\<lambda>d p a fs. ((None, []), fs))\<rparr>
      \<lparr>TempDir = (\<lambda>d p fs. Inr ''/tmp/conf1''),
      CopyDirectory = (\<lambda>src dst fs. (None, fs(dst @ ''/nginx.conf'' \<mapsto> File True ''listen {{port}};''))),
      Environ = []\<rparr>
      \<lparr>files = [''/app/nginx.conf'' \<mapsto> File True ''listen {{port}};''], calls = [], logged = []\<rparr>)) ''/tmp/conf1'' = None
   \<and> files (snd (validateNginxConfSyntax
      \<lparr>BuildDir = ''/app'', DepDir = ''/deps/0''\<rparr>
      \<lparr>Command_Run = (\<lambda>cmd fs. (None, fs)), Command_Execute = (\<lambda>d p a fs. ((None, []), fs))\<rparr>
      \<lparr>TempDir = (\<lambda>d p fs. Inr ''/tmp/conf1''),
      CopyDirectory = (\<lambda>src dst fs. (None, fs(dst @ ''/nginx.conf'' \<mapsto> File True ''listen {{port}};''))),
      Environ = []\<rparr>
      \<lparr>files = [''/app/nginx.conf'' \<mapsto> File True ''listen {{port}};''], calls = [], logged = []\<rparr>)) ''/tmp/conf1/nginx.conf'' = None
   \<and> fst (validateNginxConfSyntax
      \<lparr>BuildDir = ''/app'', DepDir = ''/deps/0''\<rparr>
      \<lparr>Command_Run = (\<lambda>cmd fs. (None, fs)),
      Command_Execute = (\<lambda>d p a fs. ((Some ''exit status 1'', ''unknown directive''), fs))\<rparr>
      \<lparr>TempDir = (\<lambda>d p fs. Inr ''/tmp/conf1''),
      CopyDirectory = (\<lambda>src dst fs. (None, fs(dst @ ''/nginx.conf'' \<mapsto> File True ''listen {{port}};''))),
      Environ = []\<rparr>
      \<lparr>files = [''/app/nginx.conf'' \<mapsto> File True ''listen {{port}};''], calls = [], logged = []\<rparr>) = Some (ConfSyntaxError ''exit status 1'')
   \<and> files (snd (validateNginxConfSyntax
      \<lparr>BuildDir = ''/app'', DepDir = ''/deps/0''\<rparr>
      \<lparr>Command_Run = (\<lambda>cmd fs. (None, fs)),
      Command_Execute = (\<lambda>d p a fs. ((Some ''exit status 1'', ''unknown directive''), fs))\<rparr>
      \<lparr>TempDir = (\<lambda>d p fs. Inr ''/tmp/conf1''),
      CopyDirectory = (\<lambda>src dst fs. (None, fs(dst @ ''/nginx.conf'' \<mapsto> File True ''listen {{port}};''))),
      Environ = []\<rparr>
      \<lparr>files = [''/app/nginx.conf'' \<mapsto> File True ''listen {{port}};''], calls = [], logged = []\<rparr>)) ''/tmp/conf1'' = None
   \<and> fst (validateNginxConfSyntax
      \<lparr>BuildDir = ''/app'', DepDir = ''/deps/0''\<rparr>
      \<lparr>Command_Run = (\<lambda>cmd fs. (None, fs)), Command_Execute = (\<lambda>d p a fs. ((None, []), fs))\<rparr>
      \<lparr>TempDir = (\<lambda>d p fs. Inr ''/tmp/conf1''),
      CopyDirectory = (\<lambda>src dst fs. (Some (IOError src), fs(dst @ ''/nginx.conf'' \<mapsto> File True []))),
      Environ = []\<rparr>
      \<lparr>files = [''/app/nginx.conf'' \<mapsto> File True ''listen {{port}};''], calls = [], logged = []\<rparr>) = Some (CopyFailed (IOError ''/app''))
   \<and> files (snd (validateNginxConfSyntax
      \<lparr>BuildDir = ''/app'', DepDir = ''/deps/0''\<rparr>
      \<lparr>Command_Run = (\<lambda>cmd fs. (None, fs)), Command_Execute = (\<lambda>d p a fs. ((None, []), fs))\<rparr>
      \<lparr>TempDir = (\<lambda>d p fs. Inr ''/tmp/conf1''),
      CopyDirectory = (\<lambda>src dst fs. (Some (IOError src), fs(dst @ ''/nginx.conf'' \<mapsto> File True []))),
      Environ = []\<rparr>
      \<lparr>files = [''/app/nginx.conf'' \<mapsto> File True ''listen {{port}};''], calls = [], logged = []\<rparr>)) ''/tmp/conf1/nginx.conf'' = None"
proof -
  let ?st = "\<lparr>BuildDir = ''/app'', DepDir = ''/deps/0''\<rparr>"
  let ?c = "\<lparr>Command_Run = (\<lambda>cmd fs. (None, fs)), Command_Execute = (\<lambda>d p a fs. ((None, []), fs))\<rparr>"
  let ?d = "\<lparr>Command_Run = (\<lambda>cmd fs. (None, fs)),
      Command_Execute = (\<lambda>d p a fs. ((Some ''exit status 1'', ''unknown directive''), fs))\<rparr>"
  let ?h = "\<lparr>TempDir = (\<lambda>d p fs. Inr ''/tmp/conf1''),
      CopyDirectory = (\<lambda>src dst fs. (None, fs(dst @ ''/nginx.conf'' \<mapsto> File True ''listen {{port}};''))),
      Environ = []\<rparr>"
  let ?g = "\<lparr>TempDir = (\<lambda>d p fs. Inr ''/tmp/conf1''),
      CopyDirectory = (\<lambda>src dst fs. (Some (IOError src), fs(dst @ ''/nginx.conf'' \<mapsto> File True []))),
      Environ = []\<rparr>"
  let ?w = "\<lparr>files = [''/app/nginx.conf'' \<mapsto> File True ''listen {{port}};''], calls = [], logged = []\<rparr>"
  have t: "TempDir ?h ''/tmp'' ''conf'' (files ?w) = Inr ''/tmp/conf1''"
    and u: "TempDir ?g ''/tmp'' ''conf'' (files ?w) = Inr ''/tmp/conf1''"
    by simp_all
  have below: "prefix (''/tmp/conf1'' @ ''/'') ''/tmp/conf1/nginx.conf''"
    by simp
  have r1: "fst (validateNginxConfSyntax ?st ?c ?h ?w) = None"
    and r2: "fst (validateNginxConfSyntax ?st ?d ?h ?w) = Some (ConfSyntaxError ''exit status 1'')"
    and r3: "fst (validateNginxConfSyntax ?st ?c ?g ?w) = Some (CopyFailed (IOError ''/app''))"
    by (simp_all add: validateNginxConfSyntax_def syntaxCheckBody_def Let_def)
  from validateNginxConfSyntax_removes_tmp [OF t, where st = ?st and c = ?c
      and r = "fst (validateNginxConfSyntax ?st ?c ?h ?w)"
      and w' = "snd (validateNginxConfSyntax ?st ?c ?h ?w)"] below
  have a: "files (snd (validateNginxConfSyntax ?st ?c ?h ?w)) ''/tmp/conf1'' = None
      \<and> files (snd (validateNginxConfSyntax ?st ?c ?h ?w)) ''/tmp/conf1/nginx.conf'' = None"
    by simp
  from validateNginxConfSyntax_removes_tmp [OF t, where st = ?st and c = ?d
      and r = "fst (validateNginxConfSyntax ?st ?d ?h ?w)"
      and w' = "snd (validateNginxConfSyntax ?st ?d ?h ?w)"]
  have b: "files (snd (validateNginxConfSyntax ?st ?d ?h ?w)) ''/tmp/conf1'' = None"
    by simp
  from validateNginxConfSyntax_removes_tmp [OF u, where st = ?st and c = ?c
      and r = "fst (validateNginxConfSyntax ?st ?c ?g ?w)"
      and w' = "snd (validateNginxConfSyntax ?st ?c ?g ?w)"] below
  have c: "files (snd (validateNginxConfSyntax ?st ?c ?g ?w)) ''/tmp/conf1/nginx.conf'' = None"
    by simp
  from r1 r2 r3 a b c show ?thesis by simp
qed

end
